theory Spec2Isabelle
  imports Main "HOL-Library.AList" "HOL-Library.Product_Lexorder"
begin

section \<open>Data of the timed-message plugin\<close>

text \<open>
  The plugin of \<^verbatim>\<open>src/main.py\<close> keeps a list of message configurations, one timer task per
  enabled configuration, and a JSON document on disk. A Python \<^verbatim>\<open>str\<close> is a \<^typ>\<open>string\<close>
  here: one list element per character of the \<^verbatim>\<open>str\<close>, so that \<^const>\<open>length\<close> is Python's
  \<^verbatim>\<open>len\<close> and \<^const>\<open>take\<close> is a slice from the start.
\<close>

text \<open>The exceptions (subclasses of \<^verbatim>\<open>Exception\<close>) that the modelled code can meet.\<close>

datatype py_error = ValueError | TypeError | OverflowError | RuntimeError

text \<open>
  A message configuration is the dictionary built at lines 127--134. The code reads
  \<^verbatim>\<open>id\<close>, \<^verbatim>\<open>group_id\<close>, \<^verbatim>\<open>time\<close> and \<^verbatim>\<open>message\<close> by subscript and
  \<^verbatim>\<open>enabled\<close> by \<^verbatim>\<open>.get('enabled', True)\<close>: only that key may be missing
  (\<^const>\<open>None\<close>) in a configuration that was loaded from the document.
\<close>

record msg_config =
  cfg_id :: string
  cfg_group_id :: string
  cfg_time :: string
  cfg_message :: string
  cfg_enabled :: "bool option"
  cfg_created_at :: string

text \<open>\<^verbatim>\<open>msg.get('enabled', True)\<close>\<close>

definition get_enabled :: "msg_config \<Rightarrow> bool" where
  "get_enabled msg = (case cfg_enabled msg of None \<Rightarrow> True | Some b \<Rightarrow> b)"

section \<open>The standard library: times of day, dates, parsing\<close>

text \<open>
  \<^verbatim>\<open>datetime.time\<close>: the four fields and the time zone, \<^const>\<open>None\<close> for a naive time,
  otherwise the offset from UTC in microseconds.
\<close>

record pytime =
  hour :: nat
  minute :: nat
  second :: nat
  microsecond :: nat
  tzinfo :: "int option"

text \<open>
  \<^verbatim>\<open>datetime.datetime\<close>: the date as its proleptic Gregorian ordinal (day 1 is
  0001-01-01, \<^verbatim>\<open>date.max\<close> is day 3652059, 9999-12-31), and the time of day.
\<close>

record pydatetime =
  dt_date :: int
  dt_time :: pytime

definition max_ordinal :: int where
  "max_ordinal = 3652059"

text \<open>\<^verbatim>\<open>now.time()\<close>: the time of day, always naive.\<close>

definition time_of :: "pydatetime \<Rightarrow> pytime" where
  "time_of now = (dt_time now)\<lparr>tzinfo := None\<rparr>"

text \<open>\<^verbatim>\<open>datetime.combine(date, time)\<close>\<close>

definition combine :: "int \<Rightarrow> pytime \<Rightarrow> pydatetime" where
  "combine d t = \<lparr>dt_date = d, dt_time = t\<rparr>"

text \<open>
  \<^verbatim>\<open>now + timedelta(days=1)\<close>: the same time on the next day; on the last day of the
  calendar the addition raises \<^verbatim>\<open>OverflowError\<close>.
\<close>

definition plus_one_day :: "pydatetime \<Rightarrow> py_error + pydatetime" where
  "plus_one_day now =
     (if max_ordinal < dt_date now + 1 then Inl OverflowError
      else Inr (now\<lparr>dt_date := dt_date now + 1\<rparr>))"

text \<open>
  Two naive times compare as the tuples of their fields; the order on tuples is the
  lexicographic one.
\<close>

definition time_key :: "pytime \<Rightarrow> nat \<times> nat \<times> nat \<times> nat" where
  "time_key t = (hour t, minute t, second t, microsecond t)"

text \<open>
  \<^verbatim>\<open>current_time >= target_time\<close> at line 71, where the left operand is naive: ordering a
  naive time against one with a time zone raises \<^verbatim>\<open>TypeError\<close>.
\<close>

definition time_ge :: "pytime \<Rightarrow> pytime \<Rightarrow> py_error + bool" where
  "time_ge current_time target_time =
     (if tzinfo target_time \<noteq> None then Inl TypeError
      else Inr (time_key target_time \<le> time_key current_time))"

subsection \<open>\<^verbatim>\<open>time.fromisoformat\<close>\<close>

text \<open>
  The parser belongs to the interpreter, not to the repository. It is modelled from the
  library's documentation of the format
  \<^verbatim>\<open>HH[:MM[:SS[.fff[fff]]]][+HH:MM[:SS[.ffffff]]]\<close>, with the field ranges that the
  \<^verbatim>\<open>time\<close> constructor enforces: the format of the interpreters up to 3.10.
  Interpreters from 3.11 on accept further ISO 8601 spellings besides these (such as
  \<^verbatim>\<open>0900\<close>); every string accepted here is accepted there as well. A result
  \<^const>\<open>None\<close> therefore says only that the string is outside this format, and the
  results below that evaluate the parser do so on strings of this format.
\<close>

definition is_digit :: "char \<Rightarrow> bool" where
  "is_digit c = (48 \<le> (of_char c :: nat) \<and> (of_char c :: nat) \<le> 57)"

definition digit_val :: "char \<Rightarrow> nat" where
  "digit_val c = of_char c - 48"

text \<open>A field of decimal digits, all of them digits and at least one.\<close>

definition parse_digits :: "string \<Rightarrow> nat option" where
  "parse_digits s =
     (if s \<noteq> [] \<and> list_all is_digit s
      then Some (foldl (\<lambda>n c. 10 * n + digit_val c) 0 s) else None)"

definition two_digits :: "string \<Rightarrow> nat option" where
  "two_digits s = (if length s < 2 then None else parse_digits (take 2 s))"

text \<open>What follows the seconds: nothing, or a point and three or six digits.\<close>

definition parse_fraction :: "string \<Rightarrow> nat option" where
  "parse_fraction s =
     (case s of
        [] \<Rightarrow> Some 0
      | c # fs \<Rightarrow>
          if c \<noteq> CHR ''.'' then None
          else if length fs = 3 then map_option (\<lambda>n. n * 1000) (parse_digits fs)
          else if length fs = 6 then parse_digits fs
          else None)"

text \<open>\<^verbatim>\<open>HH[:MM[:SS[.fff[fff]]]]\<close>: hours, minutes, seconds, microseconds.\<close>

definition parse_hh_mm_ss_ff :: "string \<Rightarrow> (nat \<times> nat \<times> nat \<times> nat) option" where
  "parse_hh_mm_ss_ff s =
     (case two_digits s of
        None \<Rightarrow> None
      | Some h \<Rightarrow>
          (case drop 2 s of
             [] \<Rightarrow> Some (h, 0, 0, 0)
           | c1 # s1 \<Rightarrow>
               if c1 \<noteq> CHR '':'' then None
               else
                 (case two_digits s1 of
                    None \<Rightarrow> None
                  | Some m \<Rightarrow>
                      (case drop 2 s1 of
                         [] \<Rightarrow> Some (h, m, 0, 0)
                       | c2 # s2 \<Rightarrow>
                           if c2 \<noteq> CHR '':'' then None
                           else
                             (case two_digits s2 of
                                None \<Rightarrow> None
                              | Some sec \<Rightarrow>
                                  (case parse_fraction (drop 2 s2) of
                                     None \<Rightarrow> None
                                   | Some us \<Rightarrow> Some (h, m, sec, us)))))))"

text \<open>\<^verbatim>\<open>str.find\<close> of one character: the first position, if any.\<close>

fun find_char :: "char \<Rightarrow> string \<Rightarrow> nat option" where
  "find_char c [] = None"
| "find_char c (x # xs) = (if x = c then Some 0 else map_option Suc (find_char c xs))"

text \<open>
  The time zone part: five, eight or fifteen characters in the format of the time part;
  all zero is UTC, otherwise the signed offset, which must be shorter than a day.
\<close>

definition parse_tz :: "bool \<Rightarrow> string \<Rightarrow> int option" where
  "parse_tz negative tzstr =
     (if length tzstr \<notin> {5, 8, 15} then None
      else
        (case parse_hh_mm_ss_ff tzstr of
           None \<Rightarrow> None
         | Some (h, m, s, us) \<Rightarrow>
             (let td = ((int h * 60 + int m) * 60 + int s) * 1000000 + int us in
              if 86400000000 \<le> td then None
              else Some (if negative then - td else td))))"

definition fromisoformat :: "string \<Rightarrow> pytime option" where
  "fromisoformat tstr =
     (if length tstr < 2 then None
      else
        (let tz_pos = (case find_char CHR ''-'' tstr of
                         Some i \<Rightarrow> Some i
                       | None \<Rightarrow> find_char CHR ''+'' tstr);
             timestr = (case tz_pos of None \<Rightarrow> tstr | Some i \<Rightarrow> take i tstr)
         in
           (case parse_hh_mm_ss_ff timestr of
              None \<Rightarrow> None
            | Some (h, m, s, us) \<Rightarrow>
                if \<not> (h < 24 \<and> m < 60 \<and> s < 60) then None
                else
                  (case tz_pos of
                     None \<Rightarrow>
                       Some \<lparr>hour = h, minute = m, second = s, microsecond = us,
                             tzinfo = None\<rparr>
                   | Some i \<Rightarrow>
                       (case parse_tz (tstr ! i = CHR ''-'') (drop (Suc i) tstr) of
                          None \<Rightarrow> None
                        | Some off \<Rightarrow>
                            Some \<lparr>hour = h, minute = m, second = s, microsecond = us,
                                  tzinfo = Some off\<rparr>)))))"

section \<open>The next run of a timer (lines 65--72)\<close>

text \<open>
  One pass through the head of the loop body of \<^verbatim>\<open>timed_message_loop\<close>: parse the
  configured time, combine it with today's date, and take tomorrow's date instead when
  the current time of day is not before it. Each exception that the statements can raise
  is a result of its own.
\<close>

definition next_run :: "pydatetime \<Rightarrow> msg_config \<Rightarrow> py_error + pydatetime" where
  "next_run now msg_config =
     (case fromisoformat (cfg_time msg_config) of
        None \<Rightarrow> Inl ValueError
      | Some target_time \<Rightarrow>
          (let current_time = time_of now;
               today = combine (dt_date now) target_time
           in
             (case time_ge current_time target_time of
                Inl e \<Rightarrow> Inl e
              | Inr passed \<Rightarrow>
                  if passed then
                    (case plus_one_day now of
                       Inl e \<Rightarrow> Inl e
                     | Inr tomorrow \<Rightarrow> Inr (combine (dt_date tomorrow) target_time))
                  else Inr today)))"

section \<open>Strings\<close>

text \<open>
  \<^verbatim>\<open>s.split(sep, maxsplit)\<close> with a separator of one character: at most \<^verbatim>\<open>maxsplit\<close>
  cuts, from the left; two separators in a row give an empty piece.
\<close>

fun py_split :: "char \<Rightarrow> nat \<Rightarrow> string \<Rightarrow> string list" where
  "py_split sep 0 s = [s]"
| "py_split sep (Suc n) s =
     (case dropWhile (\<lambda>c. c \<noteq> sep) s of
        [] \<Rightarrow> [s]
      | _ # rest \<Rightarrow> takeWhile (\<lambda>c. c \<noteq> sep) s # py_split sep n rest)"

text \<open>The decimal text of an integer, as an f-string prints it.\<close>

fun str_nat :: "nat \<Rightarrow> string" where
  "str_nat n =
     (if n < 10 then [''0123456789'' ! n]
      else str_nat (n div 10) @ [''0123456789'' ! (n mod 10)])"

declare str_nat.simps [simp del]

definition str_int :: "int \<Rightarrow> string" where
  "str_int i = (if i < 0 then CHR ''-'' # str_nat (nat (- i)) else str_nat (nat i))"

section \<open>The state of the plugin\<close>

text \<open>
  The file \<^verbatim>\<open>timed_messages.json\<close>: absent, holding a list of configurations, or holding
  something that \<^verbatim>\<open>json.load\<close> cannot read.
\<close>

datatype document = Absent | Stored "msg_config list" | Malformed

text \<open>
  What a write of the file does (lines 41--42): it succeeds; \<^verbatim>\<open>open\<close> raises and the
  file stays as it was; or the file is opened, and so emptied, and the dump raises before
  it completes.
\<close>

datatype write_outcome = Written | OpenFailed | DumpFailed

text \<open>
  A task of the event loop, made by \<^verbatim>\<open>asyncio.create_task\<close>. It runs
  \<^verbatim>\<open>timed_message_loop\<close> on its configuration until it is cancelled or the loop ends by an
  error. The loop reads the keys \<^verbatim>\<open>id\<close>, \<^verbatim>\<open>time\<close>, \<^verbatim>\<open>group_id\<close> and
  \<^verbatim>\<open>message\<close> only, and no operation changes them: the task holds its configuration by
  value here, the code by reference. A task that is cancelled gets \<^verbatim>\<open>CancelledError\<close> at
  the \<^verbatim>\<open>await\<close> where it is suspended and sends nothing after that, so it counts as
  stopped from the call of \<^verbatim>\<open>cancel\<close> on.
\<close>

datatype task_state = Running | Cancelled | Finished

record task =
  task_config :: msg_config
  task_state :: task_state

datatype log_line =
    LogLoaded nat
  | LogLoadFailed
  | LogSaveFailed
  | LogTaskStarted string
  | LogInitialized
  | LogTerminated
  | LogWillRun string
  | LogTaskCancelled string
  | LogTaskError string py_error
  | LogSending string string
  | LogSendFailed py_error

text \<open>
  The fields of \<^verbatim>\<open>TimedMessagePlugin\<close>: the file behind \<^verbatim>\<open>self.config_file\<close>, the
  dictionary \<^verbatim>\<open>self.tasks\<close> from ids to tasks (in insertion order, a task being its
  position in the event loop), the list \<^verbatim>\<open>self.scheduled_messages\<close>; and beside them the
  tasks that the event loop holds and the lines written to the logger.
\<close>

record plugin =
  config_file :: document
  tasks :: "(string \<times> nat) list"
  scheduled_messages :: "msg_config list"
  event_loop :: "task list"
  logger :: "log_line list"

text \<open>\<^verbatim>\<open>__init__\<close> (lines 12--16), over whatever the file holds.\<close>

definition new_plugin :: "document \<Rightarrow> plugin" where
  "new_plugin doc =
     \<lparr>config_file = doc, tasks = [], scheduled_messages = [], event_loop = [], logger = []\<rparr>"

section \<open>Loading and saving (lines 24--44)\<close>

definition save_config :: "plugin \<Rightarrow> write_outcome \<Rightarrow> plugin" where
  "save_config st w =
     (case w of
        Written \<Rightarrow> st\<lparr>config_file := Stored (scheduled_messages st)\<rparr>
      | OpenFailed \<Rightarrow> st\<lparr>logger := logger st @ [LogSaveFailed]\<rparr>
      | DumpFailed \<Rightarrow> st\<lparr>config_file := Malformed, logger := logger st @ [LogSaveFailed]\<rparr>)"

definition load_config :: "plugin \<Rightarrow> write_outcome \<Rightarrow> plugin" where
  "load_config st w =
     (case config_file st of
        Stored msgs \<Rightarrow>
          st\<lparr>scheduled_messages := msgs, logger := logger st @ [LogLoaded (length msgs)]\<rparr>
      | Absent \<Rightarrow> save_config (st\<lparr>scheduled_messages := []\<rparr>) w
      | Malformed \<Rightarrow>
          st\<lparr>scheduled_messages := [], logger := logger st @ [LogLoadFailed]\<rparr>)"

section \<open>Starting and stopping tasks (lines 46--59)\<close>

text \<open>\<^verbatim>\<open>task.cancel()\<close>: a running task is cancelled, a task that is done stays as it is.\<close>

definition cancel :: "nat \<Rightarrow> task list \<Rightarrow> task list" where
  "cancel h loop =
     (if h < length loop \<and> task_state (loop ! h) = Running
      then loop[h := (loop ! h)\<lparr>task_state := Cancelled\<rparr>] else loop)"

definition start_single_task :: "plugin \<Rightarrow> msg_config \<Rightarrow> plugin" where
  "start_single_task st msg_config =
     (let task_id = cfg_id msg_config;
          loop = (case map_of (tasks st) task_id of
                    Some h \<Rightarrow> cancel h (event_loop st)
                  | None \<Rightarrow> event_loop st)
      in st\<lparr>tasks := AList.update task_id (length loop) (tasks st),
            event_loop := loop @ [\<lparr>task_config = msg_config, task_state = Running\<rparr>],
            logger := logger st @ [LogTaskStarted task_id]\<rparr>)"

fun start_tasks :: "plugin \<Rightarrow> msg_config list \<Rightarrow> plugin" where
  "start_tasks st [] = st"
| "start_tasks st (msg_config # rest) =
     start_tasks (if get_enabled msg_config then start_single_task st msg_config else st) rest"

definition start_all_tasks :: "plugin \<Rightarrow> plugin" where
  "start_all_tasks st = start_tasks st (scheduled_messages st)"

definition initialize :: "plugin \<Rightarrow> write_outcome \<Rightarrow> plugin" where
  "initialize st w =
     (let st' = start_all_tasks (load_config st w)
      in st'\<lparr>logger := logger st' @ [LogInitialized]\<rparr>)"

text \<open>
  The statements that stop the timer of an id, at lines 182--184 and again at lines
  225--227: if the id has a task, cancel it and delete it from the dictionary.
\<close>

definition stop_task :: "plugin \<Rightarrow> string \<Rightarrow> plugin" where
  "stop_task st msg_id =
     (case map_of (tasks st) msg_id of
        None \<Rightarrow> st
      | Some h \<Rightarrow>
          st\<lparr>tasks := AList.delete msg_id (tasks st), event_loop := cancel h (event_loop st)\<rparr>)"

text \<open>\<^verbatim>\<open>terminate\<close> (lines 239--243): every task of the dictionary is cancelled.\<close>

definition terminate :: "plugin \<Rightarrow> plugin" where
  "terminate st =
     st\<lparr>event_loop := foldl (\<lambda>loop h. cancel h loop) (event_loop st) (map snd (tasks st)),
        logger := logger st @ [LogTerminated]\<rparr>"

section \<open>The timer loop (lines 61--100)\<close>

text \<open>
  \<^verbatim>\<open>send_timed_message\<close>. The \<^verbatim>\<open>try\<close> block (lines 90--97) reads the group and the
  message and hands them to the delivery step: in this source the log call of line 95,
  with the call of the send API left to be filled in (the comments of lines 93--97). The
  argument \<open>raised\<close> is the exception that the block raises, if any. The
  \<^verbatim>\<open>except\<close> clause (lines 99--100) logs it, and the function returns in both cases; what
  is returned here are the lines it logs.
\<close>

definition send_timed_message :: "msg_config \<Rightarrow> py_error option \<Rightarrow> log_line list" where
  "send_timed_message msg_config raised =
     (case raised of
        None \<Rightarrow> [LogSending (cfg_group_id msg_config) (cfg_message msg_config)]
      | Some e \<Rightarrow> [LogSendFailed e])"

text \<open>
  What the world gives to one pass of the loop: the clock read at line 65, whether the
  sleep of line 77 runs to its end (otherwise the task is cancelled while it sleeps, the
  only place where the loop awaits), and what the delivery step does.
\<close>

record tick =
  tick_now :: pydatetime
  tick_woken :: bool
  tick_raised :: "py_error option"

datatype loop_end = LoopCancelled | LoopFailed py_error

text \<open>
  \<^verbatim>\<open>timed_message_loop\<close>, run over the passes that the list of ticks provides. The loop
  is \<^verbatim>\<open>while True\<close>: it ends only by cancellation (lines 82--83) or by an exception
  (lines 84--85). The result is how the loop ended, \<^const>\<open>None\<close> when it is still
  running after the last tick, and the lines it logged.
\<close>

fun timed_message_loop :: "msg_config \<Rightarrow> tick list \<Rightarrow> loop_end option \<times> log_line list" where
  "timed_message_loop msg_config [] = (None, [])"
| "timed_message_loop msg_config (t # ts) =
     (case next_run (tick_now t) msg_config of
        Inl e \<Rightarrow> (Some (LoopFailed e), [LogTaskError (cfg_id msg_config) e])
      | Inr wake \<Rightarrow>
          if \<not> tick_woken t
          then (Some LoopCancelled,
                [LogWillRun (cfg_id msg_config), LogTaskCancelled (cfg_id msg_config)])
          else
            (let (ended, logged) = timed_message_loop msg_config ts
             in (ended,
                 LogWillRun (cfg_id msg_config)
                   # send_timed_message msg_config (tick_raised t) @ logged)))"

section \<open>The commands (lines 102--237)\<close>

text \<open>
  Each handler yields one result on every path. The texts of the results are kept apart
  by constructor, with the values that the text interpolates as arguments. No statement
  inside the \<^verbatim>\<open>try\<close> blocks of the handlers raises on the data modelled here
  (\<^verbatim>\<open>save_config\<close> catches what the write raises), so their \<^verbatim>\<open>except\<close> clauses give
  no result of their own.
\<close>

record list_row =
  row_index :: nat
  row_id :: string
  row_group_id :: string
  row_time :: string
  row_message :: string
  row_enabled :: bool

datatype reply =
    AddUsage
  | TimeFormatError
  | AddOk string string string string
  | ListEmpty
  | Listing "list_row list"
  | DelUsage
  | Deleted string
  | DelNotFound string
  | ToggleUsage
  | ToggleEnabled string
  | ToggleDisabled string
  | ToggleNotFound string

text \<open>
  The two readings of \<^verbatim>\<open>datetime.now()\<close> in \<^verbatim>\<open>add_timed_message\<close>, as the code uses
  them: the whole seconds of the timestamp (line 126) and the ISO text (line 133).
\<close>

record add_clock =
  clock_timestamp :: int
  clock_isoformat :: string

definition add_timed_message ::
  "plugin \<Rightarrow> string \<Rightarrow> add_clock \<Rightarrow> write_outcome \<Rightarrow> plugin \<times> reply" where
  "add_timed_message st message_str clock w =
     (let args = py_split CHR '' '' 3 message_str in
      if length args < 4 then (st, AddUsage)
      else
        (let group_id = args ! 1; time_str = args ! 2; message = args ! 3 in
         case fromisoformat time_str of
           None \<Rightarrow> (st, TimeFormatError)
         | Some _ \<Rightarrow>
             (let msg_id = ''msg_'' @ str_nat (length (scheduled_messages st) + 1) @ ''_''
                             @ str_int (clock_timestamp clock);
                  new_config = \<lparr>cfg_id = msg_id, cfg_group_id = group_id, cfg_time = time_str,
                                cfg_message = message, cfg_enabled = Some True,
                                cfg_created_at = clock_isoformat clock\<rparr>;
                  st1 = st\<lparr>scheduled_messages := scheduled_messages st @ [new_config]\<rparr>;
                  st2 = save_config st1 w;
                  st3 = start_single_task st2 new_config
              in (st3, AddOk msg_id group_id time_str message))))"

text \<open>The message as the list shows it (line 159).\<close>

definition shown_message :: "string \<Rightarrow> string" where
  "shown_message message = take 50 message @ (if 50 < length message then ''...'' else [])"

definition list_timed_messages :: "plugin \<Rightarrow> reply" where
  "list_timed_messages st =
     (if scheduled_messages st = [] then ListEmpty
      else Listing
        (map (\<lambda>(i, msg).
                \<lparr>row_index = i, row_id = cfg_id msg, row_group_id = cfg_group_id msg,
                 row_time = cfg_time msg, row_message = shown_message (cfg_message msg),
                 row_enabled = get_enabled msg\<rparr>)
             (List.enumerate 1 (scheduled_messages st))))"

text \<open>
  The search of the two \<^verbatim>\<open>for\<close> loops (lines 179--180 and 216--217): the position of
  the first configuration with the id.
\<close>

fun find_id :: "string \<Rightarrow> msg_config list \<Rightarrow> nat option" where
  "find_id msg_id [] = None"
| "find_id msg_id (msg # rest) =
     (if cfg_id msg = msg_id then Some 0 else map_option Suc (find_id msg_id rest))"

definition delete_timed_message :: "plugin \<Rightarrow> string \<Rightarrow> write_outcome \<Rightarrow> plugin \<times> reply" where
  "delete_timed_message st message_str w =
     (let args = py_split CHR '' '' 1 message_str in
      if length args < 2 then (st, DelUsage)
      else
        (let msg_id = args ! 1 in
         case find_id msg_id (scheduled_messages st) of
           None \<Rightarrow> (st, DelNotFound msg_id)
         | Some i \<Rightarrow>
             (let st1 = stop_task st msg_id;
                  st2 = st1\<lparr>scheduled_messages :=
                              take i (scheduled_messages st1) @ drop (Suc i) (scheduled_messages st1)\<rparr>;
                  st3 = save_config st2 w
              in (st3, Deleted msg_id))))"

definition toggle_timed_message :: "plugin \<Rightarrow> string \<Rightarrow> write_outcome \<Rightarrow> plugin \<times> reply" where
  "toggle_timed_message st message_str w =
     (let args = py_split CHR '' '' 1 message_str in
      if length args < 2 then (st, ToggleUsage)
      else
        (let msg_id = args ! 1 in
         case find_id msg_id (scheduled_messages st) of
           None \<Rightarrow> (st, ToggleNotFound msg_id)
         | Some i \<Rightarrow>
             (let old = scheduled_messages st ! i;
                  msg = old\<lparr>cfg_enabled := Some (\<not> get_enabled old)\<rparr>;
                  st1 = st\<lparr>scheduled_messages := (scheduled_messages st)[i := msg]\<rparr>;
                  st2 = save_config st1 w
              in if get_enabled msg
                 then (start_single_task st2 msg, ToggleEnabled msg_id)
                 else (stop_task st2 msg_id, ToggleDisabled msg_id))))"

section \<open>Runs of the plugin\<close>

text \<open>
  What can happen to a plugin: the entry points of the class, the two task operations
  called on their own, and a task whose loop ends by itself (lines 84--85).
\<close>

datatype command =
    Initialize write_outcome
  | AddTimedMsg string add_clock write_outcome
  | ListTimedMsg
  | DelTimedMsg string write_outcome
  | ToggleTimedMsg string write_outcome
  | Terminate
  | StartSingleTask msg_config
  | StopTask string
  | TaskEnds nat

definition task_ends :: "nat \<Rightarrow> task list \<Rightarrow> task list" where
  "task_ends h loop =
     (if h < length loop \<and> task_state (loop ! h) = Running
      then loop[h := (loop ! h)\<lparr>task_state := Finished\<rparr>] else loop)"

fun perform :: "plugin \<Rightarrow> command \<Rightarrow> plugin" where
  "perform st (Initialize w) = initialize st w"
| "perform st (AddTimedMsg message_str clock w) = fst (add_timed_message st message_str clock w)"
| "perform st ListTimedMsg = st"
| "perform st (DelTimedMsg message_str w) = fst (delete_timed_message st message_str w)"
| "perform st (ToggleTimedMsg message_str w) = fst (toggle_timed_message st message_str w)"
| "perform st Terminate = terminate st"
| "perform st (StartSingleTask msg_config) = start_single_task st msg_config"
| "perform st (StopTask msg_id) = stop_task st msg_id"
| "perform st (TaskEnds h) = st\<lparr>event_loop := task_ends h (event_loop st)\<rparr>"

definition run :: "document \<Rightarrow> command list \<Rightarrow> plugin" where
  "run doc cmds = foldl perform (new_plugin doc) cmds"

text \<open>The running tasks of the event loop that belong to an id.\<close>

definition active_tasks :: "plugin \<Rightarrow> string \<Rightarrow> task list" where
  "active_tasks st i =
     filter (\<lambda>t. task_state t = Running \<and> cfg_id (task_config t) = i) (event_loop st)"

section \<open>The format that the commands document\<close>

text \<open>
  The usage text of \<^verbatim>\<open>add_timed_message\<close> (lines 105--106, 122) asks for a time as
  \<^verbatim>\<open>HH:MM\<close>: two digits, a colon, two digits, the hour below 24 and the minute below 60.
  This predicate is written from that description, not from the code, to be compared with
  what the code accepts.
\<close>

definition is_hh_mm :: "string \<Rightarrow> bool" where
  "is_hh_mm s =
     (case s of
        [h1, h2, c, m1, m2] \<Rightarrow>
          is_digit h1 \<and> is_digit h2 \<and> c = CHR '':'' \<and> is_digit m1 \<and> is_digit m2 \<and>
          10 * digit_val h1 + digit_val h2 < 24 \<and> 10 * digit_val m1 + digit_val m2 < 60
      | _ \<Rightarrow> False)"

section \<open>Tasks and the dictionary\<close>

text \<open>
  The invariant of the task dictionary: every running task of the event loop is the task
  that the dictionary holds under the id of its configuration.
\<close>

definition registered :: "(string \<times> nat) list \<Rightarrow> task list \<Rightarrow> bool" where
  "registered ts loop =
     (\<forall>h < length loop.
        task_state (loop ! h) = Running \<longrightarrow>
        map_of ts (cfg_id (task_config (loop ! h))) = Some h)"

section \<open>A plugin to compute on\<close>

text \<open>
  The state after \<^verbatim>\<open>initialize\<close> on a missing file and one \<^verbatim>\<open>/add_timed_msg\<close> at the
  timestamp 1704067200: one enabled configuration, saved, with its task running.
\<close>

definition example_clock :: add_clock where
  "example_clock =
     \<lparr>clock_timestamp = 1704067200, clock_isoformat = ''2024-01-01T08:00:00''\<rparr>"

definition example_config :: msg_config where
  "example_config =
     \<lparr>cfg_id = ''msg_1_1704067200'', cfg_group_id = ''123456789'', cfg_time = ''09:00'',
      cfg_message = ''hello'', cfg_enabled = Some True,
      cfg_created_at = ''2024-01-01T08:00:00''\<rparr>"

definition example_plugin :: plugin where
  "example_plugin =
     \<lparr>config_file = Stored [example_config], tasks = [(''msg_1_1704067200'', 0)],
      scheduled_messages = [example_config],
      event_loop = [\<lparr>task_config = example_config, task_state = Running\<rparr>],
      logger = [LogInitialized, LogTaskStarted ''msg_1_1704067200'']\<rparr>"

section \<open>The next run: today or tomorrow\<close>

lemmas parse_defs =
  fromisoformat_def parse_hh_mm_ss_ff_def two_digits_def parse_digits_def
  parse_fraction_def parse_tz_def is_digit_def digit_val_def

text \<open>
  Claim C1. Whatever the current instant and the configured time: when the configured time
  parses to a naive time of day and the current time of day is strictly earlier than it,
  the next run computed by the loop is today's date at the configured time.
\<close>

theorem next_run_today:
  assumes "fromisoformat (cfg_time msg_config) = Some fireTime"
    and "tzinfo fireTime = None"
    and "time_key (time_of now) < time_key fireTime"
  shows "next_run now msg_config = Inr (combine (dt_date now) fireTime)"
proof -
  from assms(3) have "\<not> time_key fireTime \<le> time_key (time_of now)"
    by (simp add: not_le)
  with assms(1,2) show ?thesis
    by (simp add: next_run_def time_ge_def)
qed

text \<open>
  The example of the specification: at 08:00 on 2024-01-01 (day 738886) a configuration for
  09:00 runs next at 09:00 of the same day.
\<close>

theorem next_run_today_witness:
  "fromisoformat ''09:00'' =
     Some \<lparr>hour = 9, minute = 0, second = 0, microsecond = 0, tzinfo = None\<rparr> \<and>
   next_run
     \<lparr>dt_date = 738886,
      dt_time = \<lparr>hour = 8, minute = 0, second = 0, microsecond = 0, tzinfo = None\<rparr>\<rparr>
     \<lparr>cfg_id = ''msg_1_1704067200'', cfg_group_id = ''123456789'', cfg_time = ''09:00'',
      cfg_message = ''hello'', cfg_enabled = Some True,
      cfg_created_at = ''2024-01-01T00:00:00''\<rparr>
   = Inr \<lparr>dt_date = 738886,
          dt_time = \<lparr>hour = 9, minute = 0, second = 0, microsecond = 0, tzinfo = None\<rparr>\<rparr>"
proof -
  let ?ft = "\<lparr>hour = 9, minute = 0, second = 0, microsecond = 0, tzinfo = None\<rparr>"
  let ?now = "\<lparr>dt_date = 738886,
      dt_time = \<lparr>hour = 8, minute = 0, second = 0, microsecond = 0, tzinfo = None\<rparr>\<rparr>"
  let ?cfg = "\<lparr>cfg_id = ''msg_1_1704067200'', cfg_group_id = ''123456789'',
      cfg_time = ''09:00'', cfg_message = ''hello'', cfg_enabled = Some True,
      cfg_created_at = ''2024-01-01T00:00:00''\<rparr>"
  have p: "fromisoformat ''09:00'' = Some ?ft"
    by (simp add: parse_defs)
  have e: "time_key (time_of ?now) < time_key ?ft"
    by (simp add: time_key_def time_of_def less_prod_def)
  show ?thesis
    using p e next_run_today [of ?cfg ?ft ?now] by (simp add: combine_def)
qed

text \<open>
  Claim C2. Whatever the current instant and the configured time: when the configured time
  parses to a naive time of day and the current time of day is equal to it or later, the
  next run computed by the loop is tomorrow's date at the configured time. An exact match
  counts as passed. Tomorrow's date is a date of the calendar as long as today is not its
  last day, 9999-12-31.
\<close>

theorem next_run_tomorrow:
  assumes "fromisoformat (cfg_time msg_config) = Some fireTime"
    and "tzinfo fireTime = None"
    and "time_key fireTime \<le> time_key (time_of now)"
    and "dt_date now < max_ordinal"
  shows "next_run now msg_config = Inr (combine (dt_date now + 1) fireTime)"
  using assms by (simp add: next_run_def time_ge_def plus_one_day_def)

text \<open>
  The example of the specification with the exact match: at 09:00 on 2024-01-01 a
  configuration for 09:00 runs next at 09:00 on 2024-01-02 (day 738887).
\<close>

theorem next_run_tomorrow_witness:
  "fromisoformat ''09:00'' =
     Some \<lparr>hour = 9, minute = 0, second = 0, microsecond = 0, tzinfo = None\<rparr> \<and>
   next_run
     \<lparr>dt_date = 738886,
      dt_time = \<lparr>hour = 9, minute = 0, second = 0, microsecond = 0, tzinfo = None\<rparr>\<rparr>
     \<lparr>cfg_id = ''msg_1_1704067200'', cfg_group_id = ''123456789'', cfg_time = ''09:00'',
      cfg_message = ''hello'', cfg_enabled = Some True,
      cfg_created_at = ''2024-01-01T00:00:00''\<rparr>
   = Inr \<lparr>dt_date = 738887,
          dt_time = \<lparr>hour = 9, minute = 0, second = 0, microsecond = 0, tzinfo = None\<rparr>\<rparr>"
proof -
  let ?ft = "\<lparr>hour = 9, minute = 0, second = 0, microsecond = 0, tzinfo = None\<rparr>"
  let ?now = "\<lparr>dt_date = 738886,
      dt_time = \<lparr>hour = 9, minute = 0, second = 0, microsecond = 0, tzinfo = None\<rparr>\<rparr>"
  let ?cfg = "\<lparr>cfg_id = ''msg_1_1704067200'', cfg_group_id = ''123456789'',
      cfg_time = ''09:00'', cfg_message = ''hello'', cfg_enabled = Some True,
      cfg_created_at = ''2024-01-01T00:00:00''\<rparr>"
  have p: "fromisoformat ''09:00'' = Some ?ft"
    by (simp add: parse_defs)
  have e: "time_key ?ft \<le> time_key (time_of ?now)"
    by (simp add: time_key_def time_of_def)
  have d: "dt_date ?now < max_ordinal"
    by (simp add: max_ordinal_def)
  show ?thesis
    using p e d next_run_tomorrow [of ?cfg ?ft ?now] by (simp add: combine_def)
qed

section \<open>Cutting a command into its arguments\<close>

lemma py_split_cut:
  "sep \<notin> set a \<Longrightarrow> py_split sep (Suc n) (a @ sep # rest) = a # py_split sep n rest"
proof -
  assume a: "sep \<notin> set a"
  then have "dropWhile (\<lambda>c. c \<noteq> sep) (a @ sep # rest) = sep # rest"
    by (induction a) auto
  moreover from a have "takeWhile (\<lambda>c. c \<noteq> sep) (a @ sep # rest) = a"
    by (induction a) auto
  ultimately show ?thesis by simp
qed

lemma one_arg:
  assumes "CHR '' '' \<notin> set cmd"
  shows "py_split CHR '' '' 1 (cmd @ CHR '' '' # msg_id) = [cmd, msg_id]"
  using assms py_split_cut [of "CHR '' ''" cmd 0 msg_id] by simp

lemma find_id_None: "(find_id msg_id msgs = None) = (msg_id \<notin> cfg_id ` set msgs)"
  by (induction msgs) auto

lemma find_id_Some:
  "find_id msg_id msgs = Some i \<Longrightarrow> i < length msgs \<and> cfg_id (msgs ! i) = msg_id"
  by (induction msgs arbitrary: i) (auto split: if_splits)

section \<open>Deleting an unknown id\<close>

text \<open>
  Claim C8. A delete command whose argument is the id of no stored configuration is
  answered with the not-found result and returns the plugin as it was: the list of
  configurations, the dictionary of tasks, the tasks themselves and the file are
  unchanged, whatever a write would have done, because none is made.
\<close>

theorem delete_unknown_id:
  assumes "CHR '' '' \<notin> set cmd"
    and "msg_id \<notin> cfg_id ` set (scheduled_messages st)"
  shows "delete_timed_message st (cmd @ CHR '' '' # msg_id) w = (st, DelNotFound msg_id)"
proof -
  have "py_split CHR '' '' 1 (cmd @ CHR '' '' # msg_id) = [cmd, msg_id]"
    by (rule one_arg [OF assms(1)])
  moreover have "find_id msg_id (scheduled_messages st) = None"
    using assms(2) by (simp add: find_id_None)
  ultimately show ?thesis
    by (simp add: delete_timed_message_def)
qed

theorem delete_unknown_id_witness:
  "delete_timed_message example_plugin ''/del_timed_msg msg_2_1704067200'' Written =
     (example_plugin, DelNotFound ''msg_2_1704067200'')"
  using delete_unknown_id [of "''/del_timed_msg''" "''msg_2_1704067200''" example_plugin Written]
  by (simp add: example_plugin_def example_config_def)

section \<open>The list shows fifty characters of a message\<close>

text \<open>
  Claim C9. In the answer of the list command, the row of every configuration shows its
  message in full when the message has at most 50 characters, and the first 50
  characters followed by three points when it is longer. The command changes nothing in
  the plugin, so the stored message keeps its length.
\<close>

theorem list_shows_fifty_characters:
  assumes "i < length (scheduled_messages st)"
  shows "\<exists>rows. list_timed_messages st = Listing rows \<and>
           length rows = length (scheduled_messages st) \<and>
           row_message (rows ! i) =
             (if 50 < length (cfg_message (scheduled_messages st ! i))
              then take 50 (cfg_message (scheduled_messages st ! i)) @ ''...''
              else cfg_message (scheduled_messages st ! i)) \<and>
           perform st ListTimedMsg = st"
proof -
  from assms have "scheduled_messages st \<noteq> []" by auto
  with assms show ?thesis
    by (simp add: list_timed_messages_def shown_message_def nth_enumerate_eq)
qed

theorem list_shows_fifty_characters_witness:
  "list_timed_messages
     (example_plugin\<lparr>scheduled_messages :=
        [example_config\<lparr>cfg_message :=
           ''Good morning, everyone: the weekly meeting starts at ten''\<rparr>]\<rparr>)
   = Listing
       [\<lparr>row_index = 1, row_id = ''msg_1_1704067200'', row_group_id = ''123456789'',
         row_time = ''09:00'',
         row_message = ''Good morning, everyone: the weekly meeting starts ...'',
         row_enabled = True\<rparr>]"
  using list_shows_fifty_characters [of 0 "example_plugin\<lparr>scheduled_messages :=
        [example_config\<lparr>cfg_message :=
           ''Good morning, everyone: the weekly meeting starts at ten''\<rparr>]\<rparr>"]
  by (auto simp add: example_config_def get_enabled_def list_timed_messages_def
        enumerate_eq_zip)

section \<open>Loading when there is no file\<close>




section \<open>Adding a message: which times are accepted\<close>

lemma is_hh_mm_parses:
  assumes "is_hh_mm s"
  shows "fromisoformat s =
     Some \<lparr>hour = 10 * digit_val (s ! 0) + digit_val (s ! 1),
           minute = 10 * digit_val (s ! 3) + digit_val (s ! 4),
           second = 0, microsecond = 0, tzinfo = None\<rparr>"
proof -
  from assms obtain h1 h2 m1 m2 where s: "s = [h1, h2, CHR '':'', m1, m2]"
    and d: "is_digit h1" "is_digit h2" "is_digit m1" "is_digit m2"
    and r: "10 * digit_val h1 + digit_val h2 < 24" "10 * digit_val m1 + digit_val m2 < 60"
    by (auto simp: is_hh_mm_def split: list.splits)
  have n: "\<And>c. is_digit c \<Longrightarrow> c \<noteq> CHR ''-'' \<and> c \<noteq> CHR ''+''"
    by (auto simp: is_digit_def)
  from d n have f: "find_char CHR ''-'' s = None" "find_char CHR ''+'' s = None"
    by (auto simp: s)
  have p: "parse_hh_mm_ss_ff s =
      Some (10 * digit_val h1 + digit_val h2, 10 * digit_val m1 + digit_val m2, 0, 0)"
    using d by (simp add: s parse_hh_mm_ss_ff_def two_digits_def parse_digits_def)
  show ?thesis
    using f p r by (simp add: fromisoformat_def s)
qed

lemma scheduled_save [simp]: "scheduled_messages (save_config st w) = scheduled_messages st"
  by (cases w) (simp_all add: save_config_def)

lemma scheduled_start [simp]:
  "scheduled_messages (start_single_task st c) = scheduled_messages st"
  by (simp add: start_single_task_def Let_def)

lemma scheduled_stop [simp]: "scheduled_messages (stop_task st i) = scheduled_messages st"
  by (simp add: stop_task_def split: option.splits)

text \<open>Values of the functions on the strings that the examples use.\<close>

lemma str_one: "str_nat (Suc 0) = ''1''"
  by (simp add: str_nat.simps)

lemma str_two: "str_nat (Suc (Suc 0)) = ''2''"
  by (simp add: str_nat.simps)

lemma str_example: "str_int 1704067200 = ''1704067200''"
  by (simp add: str_int_def str_nat.simps)

lemma split_examples:
  "py_split CHR '' '' 3 ''/add_timed_msg 123456789 09:00:30 hello'' =
     [''/add_timed_msg'', ''123456789'', ''09:00:30'', ''hello'']"
  "py_split CHR '' '' 3 ''/add_timed_msg 123456789 09:00 hello'' =
     [''/add_timed_msg'', ''123456789'', ''09:00'', ''hello'']"
  "py_split CHR '' '' 3 ''/add_timed_msg 123456789 09:00+08:00 hello'' =
     [''/add_timed_msg'', ''123456789'', ''09:00+08:00'', ''hello'']"
  "py_split CHR '' '' 1 ''/del_timed_msg msg_1_1704067200'' =
     [''/del_timed_msg'', ''msg_1_1704067200'']"
  "py_split CHR '' '' 1 ''/toggle_timed_msg msg_1_1704067200'' =
     [''/toggle_timed_msg'', ''msg_1_1704067200'']"
  by (simp_all add: eval_nat_numeral)

lemma parse_examples:
  "fromisoformat ''09:00'' =
     Some \<lparr>hour = 9, minute = 0, second = 0, microsecond = 0, tzinfo = None\<rparr>"
  "fromisoformat ''09:00:30'' =
     Some \<lparr>hour = 9, minute = 0, second = 30, microsecond = 0, tzinfo = None\<rparr>"
  by (simp_all add: parse_defs)

lemmas plugin_defs =
  run_def new_plugin_def initialize_def load_config_def save_config_def start_all_tasks_def
  start_single_task_def stop_task_def cancel_def add_timed_message_def
  delete_timed_message_def toggle_timed_message_def get_enabled_def Let_def

text \<open>
  Claim C5. The claim has the add command accept a time exactly when it is of the format
  \<^verbatim>\<open>HH:MM\<close>, the format that the usage text (lines 105--106) and the error text
  (line 122) of the command give. The code tests the time with \<^verbatim>\<open>time.fromisoformat\<close>
  (lines 119--123), which reads more than that format. Evaluated on a new plugin: the
  time \<^verbatim>\<open>09:00+08:00\<close> is not of the format, and the command answers with the success
  text, stores and saves the configuration and starts its task; the loop of that task
  ends in its first pass with \<^verbatim>\<open>TypeError\<close>, raised by the comparison of line 71, so
  the message is never sent. The time \<^verbatim>\<open>09:00:30\<close> is not of the format either and is
  accepted in the same way.
\<close>

theorem add_accepts_times_outside_hh_mm:
  "\<not> is_hh_mm ''09:00+08:00'' \<and>
   add_timed_message (new_plugin Absent) ''/add_timed_msg 123456789 09:00+08:00 hello''
     example_clock Written =
   (\<lparr>config_file = Stored [example_config\<lparr>cfg_time := ''09:00+08:00''\<rparr>],
     tasks = [(''msg_1_1704067200'', 0)],
     scheduled_messages = [example_config\<lparr>cfg_time := ''09:00+08:00''\<rparr>],
     event_loop = [\<lparr>task_config = example_config\<lparr>cfg_time := ''09:00+08:00''\<rparr>,
                    task_state = Running\<rparr>],
     logger = [LogTaskStarted ''msg_1_1704067200'']\<rparr>,
    AddOk ''msg_1_1704067200'' ''123456789'' ''09:00+08:00'' ''hello'') \<and>
   timed_message_loop (example_config\<lparr>cfg_time := ''09:00+08:00''\<rparr>)
     [\<lparr>tick_now = \<lparr>dt_date = 738886,
          dt_time = \<lparr>hour = 8, minute = 0, second = 0, microsecond = 0, tzinfo = None\<rparr>\<rparr>,
       tick_woken = True, tick_raised = None\<rparr>]
   = (Some (LoopFailed TypeError), [LogTaskError ''msg_1_1704067200'' TypeError]) \<and>
   \<not> is_hh_mm ''09:00:30'' \<and>
   add_timed_message (new_plugin Absent) ''/add_timed_msg 123456789 09:00:30 hello''
     example_clock Written =
   (\<lparr>config_file = Stored [example_config\<lparr>cfg_time := ''09:00:30''\<rparr>],
     tasks = [(''msg_1_1704067200'', 0)],
     scheduled_messages = [example_config\<lparr>cfg_time := ''09:00:30''\<rparr>],
     event_loop = [\<lparr>task_config = example_config\<lparr>cfg_time := ''09:00:30''\<rparr>,
                    task_state = Running\<rparr>],
     logger = [LogTaskStarted ''msg_1_1704067200'']\<rparr>,
    AddOk ''msg_1_1704067200'' ''123456789'' ''09:00:30'' ''hello'')"
proof -
  have p: "fromisoformat ''09:00+08:00'' =
      Some \<lparr>hour = 9, minute = 0, second = 0, microsecond = 0,
            tzinfo = Some 28800000000\<rparr>"
    by (simp add: parse_defs)
  have 1: "\<not> is_hh_mm ''09:00+08:00''" "\<not> is_hh_mm ''09:00:30''"
    by (simp_all add: is_hh_mm_def)
  have 2: "add_timed_message (new_plugin Absent)
      ''/add_timed_msg 123456789 09:00+08:00 hello'' example_clock Written =
    (\<lparr>config_file = Stored [example_config\<lparr>cfg_time := ''09:00+08:00''\<rparr>],
      tasks = [(''msg_1_1704067200'', 0)],
      scheduled_messages = [example_config\<lparr>cfg_time := ''09:00+08:00''\<rparr>],
      event_loop = [\<lparr>task_config = example_config\<lparr>cfg_time := ''09:00+08:00''\<rparr>,
                     task_state = Running\<rparr>],
      logger = [LogTaskStarted ''msg_1_1704067200'']\<rparr>,
     AddOk ''msg_1_1704067200'' ''123456789'' ''09:00+08:00'' ''hello'')"
    by (simp add: plugin_defs split_examples p str_one str_example example_clock_def
          example_config_def)
  have 3: "timed_message_loop (example_config\<lparr>cfg_time := ''09:00+08:00''\<rparr>)
     [\<lparr>tick_now = \<lparr>dt_date = 738886,
          dt_time = \<lparr>hour = 8, minute = 0, second = 0, microsecond = 0, tzinfo = None\<rparr>\<rparr>,
       tick_woken = True, tick_raised = None\<rparr>]
     = (Some (LoopFailed TypeError), [LogTaskError ''msg_1_1704067200'' TypeError])"
    by (simp add: next_run_def p time_ge_def example_config_def)
  have 4: "add_timed_message (new_plugin Absent)
      ''/add_timed_msg 123456789 09:00:30 hello'' example_clock Written =
    (\<lparr>config_file = Stored [example_config\<lparr>cfg_time := ''09:00:30''\<rparr>],
      tasks = [(''msg_1_1704067200'', 0)],
      scheduled_messages = [example_config\<lparr>cfg_time := ''09:00:30''\<rparr>],
      event_loop = [\<lparr>task_config = example_config\<lparr>cfg_time := ''09:00:30''\<rparr>,
                     task_state = Running\<rparr>],
      logger = [LogTaskStarted ''msg_1_1704067200'']\<rparr>,
     AddOk ''msg_1_1704067200'' ''123456789'' ''09:00:30'' ''hello'')"
    by (simp add: plugin_defs split_examples parse_examples str_one str_example
          example_clock_def example_config_def)
  from 1 2 3 4 show ?thesis by (simp only: simp_thms)
qed

section \<open>Adding a message: the id\<close>

text \<open>
  Claim C6. The claim has the ids of the stored configurations unique in every reachable
  state, add and delete included. The code builds the id from the number of stored
  configurations plus one and the whole seconds of the clock (line 126) and appends
  without looking at the stored ids (line 136). Evaluated on a new plugin, with all four
  commands inside one second of the clock: after two adds and the delete of the first
  configuration, one configuration with the id \<^verbatim>\<open>msg_2_1704067200\<close> is left; a third add
  is answered with the success text under that same id; the list then holds the id
  twice, the dictionary holds one task for it, and of the three tasks made only the last
  is running, the task of the second configuration having been cancelled by the third
  add.
\<close>

theorem duplicate_id_after_delete:
  "map cfg_id (scheduled_messages (run Absent
     [AddTimedMsg ''/add_timed_msg 123456789 09:00 hello'' example_clock Written,
      AddTimedMsg ''/add_timed_msg 123456789 09:00 hello'' example_clock Written,
      DelTimedMsg ''/del_timed_msg msg_1_1704067200'' Written]))
   = [''msg_2_1704067200''] \<and>
   snd (add_timed_message (run Absent
     [AddTimedMsg ''/add_timed_msg 123456789 09:00 hello'' example_clock Written,
      AddTimedMsg ''/add_timed_msg 123456789 09:00 hello'' example_clock Written,
      DelTimedMsg ''/del_timed_msg msg_1_1704067200'' Written])
     ''/add_timed_msg 123456789 09:00 hello'' example_clock Written)
   = AddOk ''msg_2_1704067200'' ''123456789'' ''09:00'' ''hello'' \<and>
   map cfg_id (scheduled_messages (run Absent
     [AddTimedMsg ''/add_timed_msg 123456789 09:00 hello'' example_clock Written,
      AddTimedMsg ''/add_timed_msg 123456789 09:00 hello'' example_clock Written,
      DelTimedMsg ''/del_timed_msg msg_1_1704067200'' Written,
      AddTimedMsg ''/add_timed_msg 123456789 09:00 hello'' example_clock Written]))
   = [''msg_2_1704067200'', ''msg_2_1704067200''] \<and>
   map get_enabled (scheduled_messages (run Absent
     [AddTimedMsg ''/add_timed_msg 123456789 09:00 hello'' example_clock Written,
      AddTimedMsg ''/add_timed_msg 123456789 09:00 hello'' example_clock Written,
      DelTimedMsg ''/del_timed_msg msg_1_1704067200'' Written,
      AddTimedMsg ''/add_timed_msg 123456789 09:00 hello'' example_clock Written]))
   = [True, True] \<and>
   tasks (run Absent
     [AddTimedMsg ''/add_timed_msg 123456789 09:00 hello'' example_clock Written,
      AddTimedMsg ''/add_timed_msg 123456789 09:00 hello'' example_clock Written,
      DelTimedMsg ''/del_timed_msg msg_1_1704067200'' Written,
      AddTimedMsg ''/add_timed_msg 123456789 09:00 hello'' example_clock Written])
   = [(''msg_2_1704067200'', 2)] \<and>
   map task_state (event_loop (run Absent
     [AddTimedMsg ''/add_timed_msg 123456789 09:00 hello'' example_clock Written,
      AddTimedMsg ''/add_timed_msg 123456789 09:00 hello'' example_clock Written,
      DelTimedMsg ''/del_timed_msg msg_1_1704067200'' Written,
      AddTimedMsg ''/add_timed_msg 123456789 09:00 hello'' example_clock Written]))
   = [Cancelled, Cancelled, Running]"
  by (simp add: plugin_defs split_examples parse_examples str_one str_two str_example
        example_clock_def)

section \<open>Toggling a message\<close>

lemma find_id_map:
  "map cfg_id ms = map cfg_id ms' \<Longrightarrow> find_id x ms = find_id x ms'"
proof (induction ms arbitrary: ms')
  case Nil
  then show ?case by simp
next
  case (Cons m ms)
  then obtain m' rest where "ms' = m' # rest" by (cases ms') auto
  with Cons show ?case by auto
qed

lemma find_id_update:
  assumes "i < length ms" and "cfg_id m = cfg_id (ms ! i)"
  shows "find_id x (ms[i := m]) = find_id x ms"
proof (rule find_id_map)
  from assms show "map cfg_id (ms[i := m]) = map cfg_id ms"
    by (simp add: map_update list_update_same_conv)
qed

lemma get_enabled_set [simp]: "get_enabled (m\<lparr>cfg_enabled := Some b\<rparr>) = b"
  by (simp add: get_enabled_def)

lemma length_cancel [simp]: "length (cancel h loop) = length loop"
  by (simp add: cancel_def)

lemma save_keeps [simp]:
  "tasks (save_config st w) = tasks st"
  "event_loop (save_config st w) = event_loop st"
  by (cases w; simp add: save_config_def)+

lemma config_file_start [simp]:
  "config_file (start_single_task st c) = config_file st"
  by (simp add: start_single_task_def Let_def)

lemma config_file_stop [simp]: "config_file (stop_task st i) = config_file st"
  by (simp add: stop_task_def split: option.splits)

lemma save_written [simp]:
  "config_file (save_config st Written) = Stored (scheduled_messages st)"
  by (simp add: save_config_def)

lemma start_registers:
  "map_of (tasks (start_single_task st c)) (cfg_id c) = Some (length (event_loop st))"
  "length (event_loop (start_single_task st c)) = Suc (length (event_loop st))"
  "event_loop (start_single_task st c) ! length (event_loop st) =
     \<lparr>task_config = c, task_state = Running\<rparr>"
  by (simp_all add: start_single_task_def Let_def update_conv' nth_append split: option.splits)

lemma stop_cancels:
  assumes "map_of (tasks st) i = Some h" and "h < length (event_loop st)"
    and "task_state (event_loop st ! h) = Running"
  shows "map_of (tasks (stop_task st i)) i = None"
    and "task_state (event_loop (stop_task st i) ! h) = Cancelled"
  using assms by (simp_all add: stop_task_def delete_conv' cancel_def)

lemma toggle_found:
  assumes "CHR '' '' \<notin> set cmd" and "find_id msg_id (scheduled_messages st) = Some i"
  shows "toggle_timed_message st (cmd @ CHR '' '' # msg_id) w =
    (let old = scheduled_messages st ! i;
         msg = old\<lparr>cfg_enabled := Some (\<not> get_enabled old)\<rparr>;
         st2 = save_config (st\<lparr>scheduled_messages := (scheduled_messages st)[i := msg]\<rparr>) w
     in if get_enabled old
        then (stop_task st2 msg_id, ToggleDisabled msg_id)
        else (start_single_task st2 msg, ToggleEnabled msg_id))"
proof -
  have "py_split CHR '' '' 1 (cmd @ CHR '' '' # msg_id) = [cmd, msg_id]"
    by (rule one_arg [OF assms(1)])
  with assms(2) show ?thesis
    by (simp add: toggle_timed_message_def Let_def get_enabled_def)
qed

text \<open>
  Claim C7, as the code has it. For a stored id, toggle the configuration twice, whatever
  the two writes do. The list in memory is then the original one with the enabled flag of
  the first configuration of that id written out: the flag has its original value, read
  with the default, and the list is the original list when the flag was stored. A save
  that succeeds leaves the list in the file; so the file has its original content when
  the flag was stored, the file held the list before, and the second save succeeds. On a
  disabled configuration the first toggle answers "enabled", enables it and starts a
  running task under the id; the second answers "disabled", disables it, cancels that
  task and removes it from the dictionary.
\<close>

theorem toggle_twice:
  fixes st :: plugin
  defines "msgs \<equiv> scheduled_messages st"
  assumes "CHR '' '' \<notin> set cmd" and "find_id msg_id (scheduled_messages st) = Some i"
    and "st1 = fst (toggle_timed_message st (cmd @ CHR '' '' # msg_id) w1)"
    and "st2 = fst (toggle_timed_message st1 (cmd @ CHR '' '' # msg_id) w2)"
  shows "scheduled_messages st2 =
           msgs[i := (msgs ! i)\<lparr>cfg_enabled := Some (get_enabled (msgs ! i))\<rparr>] \<and>
         get_enabled (scheduled_messages st2 ! i) = get_enabled (msgs ! i) \<and>
         (cfg_enabled (msgs ! i) \<noteq> None \<longrightarrow> scheduled_messages st2 = msgs) \<and>
         (w2 = Written \<longrightarrow> config_file st2 = Stored (scheduled_messages st2)) \<and>
         (cfg_enabled (msgs ! i) \<noteq> None \<and> config_file st = Stored msgs \<and> w2 = Written \<longrightarrow>
            config_file st2 = config_file st) \<and>
         (\<not> get_enabled (msgs ! i) \<longrightarrow>
            snd (toggle_timed_message st (cmd @ CHR '' '' # msg_id) w1) = ToggleEnabled msg_id \<and>
            get_enabled (scheduled_messages st1 ! i) \<and>
            map_of (tasks st1) msg_id = Some (length (event_loop st)) \<and>
            task_state (event_loop st1 ! length (event_loop st)) = Running \<and>
            snd (toggle_timed_message st1 (cmd @ CHR '' '' # msg_id) w2) = ToggleDisabled msg_id \<and>
            \<not> get_enabled (scheduled_messages st2 ! i) \<and>
            map_of (tasks st2) msg_id = None \<and>
            task_state (event_loop st2 ! length (event_loop st)) = Cancelled)"
proof -
  let ?old = "msgs ! i"
  let ?msg = "?old\<lparr>cfg_enabled := Some (\<not> get_enabled ?old)\<rparr>"
  from find_id_Some [OF assms(3)] have i: "i < length msgs" and id: "cfg_id ?old = msg_id"
    by (simp_all add: msgs_def)
  have s1: "scheduled_messages st1 = msgs[i := ?msg]"
    by (simp add: assms(4) toggle_found [OF assms(2,3)] Let_def msgs_def)
  have f1: "find_id msg_id (scheduled_messages st1) = Some i"
    using i assms(3) by (simp add: s1 find_id_update msgs_def)
  have g: "get_enabled ?msg = (\<not> get_enabled ?old)"
    by simp
  have s2: "scheduled_messages st2 =
      msgs[i := ?old\<lparr>cfg_enabled := Some (get_enabled ?old)\<rparr>]"
    using i by (simp add: assms(5) toggle_found [OF assms(2) f1] Let_def s1 g)
  have c: "cfg_enabled ?old \<noteq> None \<longrightarrow> scheduled_messages st2 = msgs"
    using i by (auto simp: s2 get_enabled_def list_update_same_conv)
  have d: "w2 = Written \<longrightarrow> config_file st2 = Stored (scheduled_messages st2)"
    by (simp add: assms(5) toggle_found [OF assms(2) f1] Let_def)
  have t: "\<not> get_enabled ?old \<longrightarrow>
      snd (toggle_timed_message st (cmd @ CHR '' '' # msg_id) w1) = ToggleEnabled msg_id \<and>
      map_of (tasks st1) msg_id = Some (length (event_loop st)) \<and>
      length (event_loop st1) = Suc (length (event_loop st)) \<and>
      task_state (event_loop st1 ! length (event_loop st)) = Running"
    using id
    by (auto simp add: assms(4) toggle_found [OF assms(2,3)] Let_def msgs_def
        start_single_task_def update_conv' nth_append split: option.splits)
  have u: "\<not> get_enabled ?old \<longrightarrow>
      snd (toggle_timed_message st1 (cmd @ CHR '' '' # msg_id) w2) = ToggleDisabled msg_id \<and>
      map_of (tasks st2) msg_id = None \<and>
      task_state (event_loop st2 ! length (event_loop st)) = Cancelled"
    using t i
    by (auto simp add: assms(5) toggle_found [OF assms(2) f1] Let_def s1 g
        stop_task_def delete_conv' cancel_def)
  from i s1 s2 c d t u g show ?thesis
    by (auto simp add: get_enabled_def)
qed

text \<open>
  A disabled configuration after \<^verbatim>\<open>initialize\<close>: no task; one toggle, a running task;
  two toggles, the task cancelled and the list and the file as they were.
\<close>

theorem toggle_twice_witness:
  "find_id ''msg_1_1704067200''
     (scheduled_messages
        (run (Stored [example_config\<lparr>cfg_enabled := Some False\<rparr>]) [Initialize Written]))
     = Some 0 \<and>
   tasks (run (Stored [example_config\<lparr>cfg_enabled := Some False\<rparr>])
            [Initialize Written]) = [] \<and>
   tasks (run (Stored [example_config\<lparr>cfg_enabled := Some False\<rparr>])
            [Initialize Written,
             ToggleTimedMsg ''/toggle_timed_msg msg_1_1704067200'' Written])
     = [(''msg_1_1704067200'', 0)] \<and>
   map task_state (event_loop (run (Stored [example_config\<lparr>cfg_enabled := Some False\<rparr>])
            [Initialize Written,
             ToggleTimedMsg ''/toggle_timed_msg msg_1_1704067200'' Written]))
     = [Running] \<and>
   tasks (run (Stored [example_config\<lparr>cfg_enabled := Some False\<rparr>])
            [Initialize Written,
             ToggleTimedMsg ''/toggle_timed_msg msg_1_1704067200'' Written,
             ToggleTimedMsg ''/toggle_timed_msg msg_1_1704067200'' Written]) = [] \<and>
   map task_state (event_loop (run (Stored [example_config\<lparr>cfg_enabled := Some False\<rparr>])
            [Initialize Written,
             ToggleTimedMsg ''/toggle_timed_msg msg_1_1704067200'' Written,
             ToggleTimedMsg ''/toggle_timed_msg msg_1_1704067200'' Written]))
     = [Cancelled] \<and>
   scheduled_messages (run (Stored [example_config\<lparr>cfg_enabled := Some False\<rparr>])
            [Initialize Written,
             ToggleTimedMsg ''/toggle_timed_msg msg_1_1704067200'' Written,
             ToggleTimedMsg ''/toggle_timed_msg msg_1_1704067200'' Written])
     = [example_config\<lparr>cfg_enabled := Some False\<rparr>] \<and>
   config_file (run (Stored [example_config\<lparr>cfg_enabled := Some False\<rparr>])
            [Initialize Written,
             ToggleTimedMsg ''/toggle_timed_msg msg_1_1704067200'' Written,
             ToggleTimedMsg ''/toggle_timed_msg msg_1_1704067200'' Written])
     = Stored [example_config\<lparr>cfg_enabled := Some False\<rparr>]"
  using toggle_twice [of "''/toggle_timed_msg''" "''msg_1_1704067200''"
      "run (Stored [example_config\<lparr>cfg_enabled := Some False\<rparr>]) [Initialize Written]" 0
      "run (Stored [example_config\<lparr>cfg_enabled := Some False\<rparr>])
         [Initialize Written, ToggleTimedMsg ''/toggle_timed_msg msg_1_1704067200'' Written]"
      Written
      "run (Stored [example_config\<lparr>cfg_enabled := Some False\<rparr>])
         [Initialize Written, ToggleTimedMsg ''/toggle_timed_msg msg_1_1704067200'' Written,
          ToggleTimedMsg ''/toggle_timed_msg msg_1_1704067200'' Written]"
      Written]
  by (simp add: plugin_defs split_examples example_config_def)

text \<open>
  The claim as it was stated has the file back at its original content for every
  configuration. A configuration stored without the key \<^verbatim>\<open>enabled\<close> counts as enabled
  (line 218); after two toggles, with both saves succeeding, the file holds the key,
  which it did not hold before.
\<close>

theorem toggle_twice_counterexample:
  "config_file (run (Stored [example_config\<lparr>cfg_enabled := None\<rparr>]) [Initialize Written])
     = Stored [example_config\<lparr>cfg_enabled := None\<rparr>] \<and>
   config_file (run (Stored [example_config\<lparr>cfg_enabled := None\<rparr>])
            [Initialize Written,
             ToggleTimedMsg ''/toggle_timed_msg msg_1_1704067200'' Written,
             ToggleTimedMsg ''/toggle_timed_msg msg_1_1704067200'' Written])
     = Stored [example_config\<lparr>cfg_enabled := Some True\<rparr>] \<and>
   example_config\<lparr>cfg_enabled := Some True\<rparr> \<noteq> example_config\<lparr>cfg_enabled := None\<rparr>"
  by (simp add: plugin_defs split_examples example_config_def)

section \<open>One timer for an id\<close>

lemma cancel_nth:
  "k < length loop \<Longrightarrow>
   cancel h loop ! k =
     (if k = h \<and> task_state (loop ! k) = Running
      then (loop ! k)\<lparr>task_state := Cancelled\<rparr> else loop ! k)"
  by (auto simp add: cancel_def nth_list_update)

lemma task_ends_nth:
  "k < length loop \<Longrightarrow>
   task_ends h loop ! k =
     (if k = h \<and> task_state (loop ! k) = Running
      then (loop ! k)\<lparr>task_state := Finished\<rparr> else loop ! k)"
  by (auto simp add: task_ends_def nth_list_update)

lemma length_task_ends [simp]: "length (task_ends h loop) = length loop"
  by (simp add: task_ends_def)

lemma registered_cancel: "registered ts loop \<Longrightarrow> registered ts (cancel h loop)"
  by (auto simp add: registered_def cancel_nth)

lemma registered_task_ends: "registered ts loop \<Longrightarrow> registered ts (task_ends h loop)"
  by (auto simp add: registered_def task_ends_nth)

lemma registered_cancel_all:
  "registered ts loop \<Longrightarrow> registered ts (foldl (\<lambda>loop h. cancel h loop) loop hs)"
  by (induction hs arbitrary: loop) (simp_all add: registered_cancel)

lemma registered_start:
  assumes "registered (tasks st) (event_loop st)"
  shows "registered (tasks (start_single_task st c)) (event_loop (start_single_task st c))"
proof (cases "map_of (tasks st) (cfg_id c)")
  case None
  with assms show ?thesis
    by (auto simp add: registered_def start_single_task_def Let_def update_conv' nth_append
        less_Suc_eq)
next
  case (Some h)
  with assms show ?thesis
    by (auto simp add: registered_def start_single_task_def Let_def update_conv' nth_append
        less_Suc_eq cancel_nth)
qed

lemma registered_stop:
  assumes "registered (tasks st) (event_loop st)"
  shows "registered (tasks (stop_task st i)) (event_loop (stop_task st i))"
proof (cases "map_of (tasks st) i")
  case None
  with assms show ?thesis by (simp add: stop_task_def)
next
  case (Some h)
  with assms show ?thesis
    by (auto simp add: registered_def stop_task_def delete_conv' cancel_nth)
qed

lemma registered_start_tasks:
  "registered (tasks st) (event_loop st) \<Longrightarrow>
   registered (tasks (start_tasks st msgs)) (event_loop (start_tasks st msgs))"
  by (induction msgs arbitrary: st) (simp_all add: registered_start)

lemma load_keeps [simp]:
  "tasks (load_config st w) = tasks st"
  "event_loop (load_config st w) = event_loop st"
  by (simp_all add: load_config_def split: document.splits)

lemma registered_perform:
  assumes "registered (tasks st) (event_loop st)"
  shows "registered (tasks (perform st c)) (event_loop (perform st c))"
proof (cases c)
  case (Initialize w)
  with assms show ?thesis
    by (simp add: initialize_def start_all_tasks_def Let_def registered_start_tasks)
next
  case (AddTimedMsg message_str clock w)
  with assms show ?thesis
    by (auto simp add: add_timed_message_def Let_def registered_start split: option.splits)
next
  case ListTimedMsg
  with assms show ?thesis by simp
next
  case (DelTimedMsg message_str w)
  with assms registered_stop [OF assms] show ?thesis
    by (auto simp add: delete_timed_message_def Let_def split: option.splits)
next
  case (ToggleTimedMsg message_str w)
  have a: "\<And>s. tasks s = tasks st \<Longrightarrow> event_loop s = event_loop st \<Longrightarrow>
      registered (tasks s) (event_loop s)"
    using assms by simp
  from ToggleTimedMsg show ?thesis
    by (auto simp add: toggle_timed_message_def Let_def assms
        intro!: registered_start registered_stop a split: option.splits)
next
  case Terminate
  with assms show ?thesis
    by (simp add: terminate_def registered_cancel_all)
next
  case (StartSingleTask msg_config)
  with assms show ?thesis by (simp add: registered_start)
next
  case (StopTask msg_id)
  with assms show ?thesis by (simp add: registered_stop)
next
  case (TaskEnds h)
  with assms show ?thesis by (simp add: registered_task_ends)
qed

lemma registered_foldl:
  "registered (tasks st) (event_loop st) \<Longrightarrow>
   registered (tasks (foldl perform st cmds)) (event_loop (foldl perform st cmds))"
  by (induction cmds arbitrary: st) (simp_all add: registered_perform)

lemma registered_run: "registered (tasks (run doc cmds)) (event_loop (run doc cmds))"
  unfolding run_def
  by (rule registered_foldl) (simp add: registered_def new_plugin_def)



lemma filter_by_index:
  "filter P xs = map ((!) xs) (filter (\<lambda>k. P (xs ! k)) [0..<length xs])"
proof -
  have "filter P (map ((!) xs) [0..<length xs]) =
        map ((!) xs) (filter (P \<circ> (!) xs) [0..<length xs])"
    by (rule filter_map)
  then show ?thesis
    by (simp only: map_nth comp_def)
qed

lemma card_handle: "card {h. map_of ts i = Some h} \<le> Suc 0"
proof (cases "map_of ts i")
  case None
  then show ?thesis by simp
next
  case (Some a)
  then have "{h. map_of ts i = Some h} = {a}" by auto
  then show ?thesis by simp
qed

lemma finite_handle: "finite {h. map_of ts i = Some h}"
proof (cases "map_of ts i")
  case None
  then show ?thesis by simp
next
  case (Some a)
  then have "{h. map_of ts i = Some h} = {a}" by auto
  then show ?thesis by simp
qed

lemma at_most_one:
  assumes "registered ts loop"
  shows "length (filter (\<lambda>t. task_state t = Running \<and> cfg_id (task_config t) = i) loop) \<le> 1"
proof -
  let ?P = "\<lambda>t. task_state t = Running \<and> cfg_id (task_config t) = i"
  let ?idx = "filter (\<lambda>k. ?P (loop ! k)) [0..<length loop]"
  have len: "length (filter ?P loop) = length ?idx"
    by (subst filter_by_index) (simp only: length_map)
  have sub: "set ?idx \<subseteq> {h. map_of ts i = Some h}"
    using assms by (auto simp add: registered_def)
  have "card (set ?idx) \<le> card {h. map_of ts i = Some h}"
    by (rule card_mono [OF finite_handle sub])
  then have "card (set ?idx) \<le> Suc 0"
    using card_handle [of ts i] by (rule order_trans)
  moreover have "distinct ?idx" by simp
  ultimately have "length ?idx \<le> Suc 0"
    by (simp only: distinct_card)
  with len show ?thesis by simp
qed

lemma start_cancels_old:
  assumes "registered (tasks st) (event_loop st)"
  shows "active_tasks (start_single_task st c) (cfg_id c) =
           [\<lparr>task_config = c, task_state = Running\<rparr>]"
proof -
  let ?P = "\<lambda>t. task_state t = Running \<and> cfg_id (task_config t) = cfg_id c"
  let ?loop = "case map_of (tasks st) (cfg_id c) of
                 Some h \<Rightarrow> cancel h (event_loop st) | None \<Rightarrow> event_loop st"
  have "\<not> ?P t" if "t \<in> set ?loop" for t
  proof -
    from that obtain k where k: "k < length ?loop" "t = ?loop ! k"
      by (auto simp add: in_set_conv_nth)
    show ?thesis
    proof (cases "map_of (tasks st) (cfg_id c)")
      case None
      with k assms show ?thesis
        by (auto simp add: registered_def)
    next
      case (Some h)
      with k assms show ?thesis
        by (auto simp add: registered_def cancel_nth)
    qed
  qed
  then have "filter ?P ?loop = []"
    by (simp add: filter_empty_conv)
  then show ?thesis
    by (simp add: active_tasks_def start_single_task_def Let_def)
qed

lemma example_run:
  "run Absent
     [Initialize Written,
      AddTimedMsg ''/add_timed_msg 123456789 09:00 hello'' example_clock Written]
   = example_plugin"
  by (simp add: plugin_defs split_examples parse_examples str_one str_example
        example_clock_def example_config_def example_plugin_def)

lemma example_restart:
  "start_single_task example_plugin example_config =
     \<lparr>config_file = Stored [example_config], tasks = [(''msg_1_1704067200'', 1)],
      scheduled_messages = [example_config],
      event_loop = [\<lparr>task_config = example_config, task_state = Cancelled\<rparr>,
                    \<lparr>task_config = example_config, task_state = Running\<rparr>],
      logger = [LogInitialized, LogTaskStarted ''msg_1_1704067200'',
                LogTaskStarted ''msg_1_1704067200'']\<rparr>"
  by (simp add: example_plugin_def start_single_task_def cancel_def Let_def
        example_config_def)

text \<open>
  Claim C3. After any sequence of commands on a new plugin (initialize, add, list, delete,
  toggle, terminate, a start or a stop of a task called on its own, a task ending by
  itself), at most one running task of the event loop belongs to any one id. Starting a
  task in such a state leaves exactly the new task running for its id: the task that the
  dictionary held for the id, if it was running, is cancelled.
\<close>

theorem one_timer_per_id:
  "length (active_tasks (run doc cmds) i) \<le> 1 \<and>
   active_tasks (start_single_task (run doc cmds) msg_config) (cfg_id msg_config) =
     [\<lparr>task_config = msg_config, task_state = Running\<rparr>] \<and>
   (map_of (tasks (run doc cmds)) (cfg_id msg_config) = Some h \<and>
    h < length (event_loop (run doc cmds)) \<and>
    task_state (event_loop (run doc cmds) ! h) = Running \<longrightarrow>
      task_state (event_loop (start_single_task (run doc cmds) msg_config) ! h) = Cancelled)"
proof -
  have r: "registered (tasks (run doc cmds)) (event_loop (run doc cmds))"
    by (rule registered_run)
  have 1: "length (active_tasks (run doc cmds) i) \<le> 1"
    unfolding active_tasks_def by (rule at_most_one [OF r])
  have 2: "active_tasks (start_single_task (run doc cmds) msg_config) (cfg_id msg_config) =
     [\<lparr>task_config = msg_config, task_state = Running\<rparr>]"
    by (rule start_cancels_old [OF r])
  have 3: "map_of (tasks (run doc cmds)) (cfg_id msg_config) = Some h \<and>
    h < length (event_loop (run doc cmds)) \<and>
    task_state (event_loop (run doc cmds) ! h) = Running \<longrightarrow>
      task_state (event_loop (start_single_task (run doc cmds) msg_config) ! h) = Cancelled"
    by (auto simp add: start_single_task_def Let_def nth_append cancel_nth)
  from 1 2 3 show ?thesis by blast
qed

text \<open>A second start for the id of the example cancels its first task.\<close>

theorem one_timer_per_id_witness:
  "map_of (tasks (run Absent
      [Initialize Written,
       AddTimedMsg ''/add_timed_msg 123456789 09:00 hello'' example_clock Written]))
     ''msg_1_1704067200'' = Some 0 \<and>
   map task_state (event_loop (run Absent
      [Initialize Written,
       AddTimedMsg ''/add_timed_msg 123456789 09:00 hello'' example_clock Written]))
     = [Running] \<and>
   map task_state (event_loop (start_single_task (run Absent
      [Initialize Written,
       AddTimedMsg ''/add_timed_msg 123456789 09:00 hello'' example_clock Written])
      example_config))
     = [Cancelled, Running] \<and>
   active_tasks (start_single_task (run Absent
      [Initialize Written,
       AddTimedMsg ''/add_timed_msg 123456789 09:00 hello'' example_clock Written])
      example_config) ''msg_1_1704067200''
     = [\<lparr>task_config = example_config, task_state = Running\<rparr>]"
proof -
  have i: "cfg_id example_config = ''msg_1_1704067200''"
    by (simp add: example_config_def)
  have a: "map_of (tasks example_plugin) ''msg_1_1704067200'' = Some 0"
    "map task_state (event_loop example_plugin) = [Running]"
    by (simp_all add: example_plugin_def)
  have b: "map task_state (event_loop (start_single_task example_plugin example_config))
      = [Cancelled, Running]"
    by (simp add: example_restart)
  from one_timer_per_id [of Absent
      "[Initialize Written,
        AddTimedMsg ''/add_timed_msg 123456789 09:00 hello'' example_clock Written]"
      "''msg_1_1704067200''" example_config 0]
  have "active_tasks (start_single_task example_plugin example_config) ''msg_1_1704067200''
      = [\<lparr>task_config = example_config, task_state = Running\<rparr>]"
    by (simp only: example_run i)
  with a b show ?thesis
    by (simp only: example_run)
qed

section \<open>A delivery that fails\<close>

lemma next_run_Inr:
  assumes "next_run now msg_config = Inr wake"
  shows "fromisoformat (cfg_time msg_config) = Some (dt_time wake) \<and>
         tzinfo (dt_time wake) = None"
  using assms
  by (auto simp add: next_run_def time_ge_def plus_one_day_def combine_def Let_def
      split: option.splits if_splits sum.splits)

text \<open>
  Claim C4. Take any pass of the loop of a configuration that fires: the next run is
  computed and the sleep runs to its end. When the delivery step raises an exception
  \<open>e\<close>, \<^verbatim>\<open>send_timed_message\<close> catches it and logs it, and the loop goes on with
  the following passes exactly as it does after a delivery that succeeds; after this pass
  alone it is still running. The next pass computes the next run again: read on the day
  of the fire, at the fire time or later, the clock gives the same time on the following
  day.
\<close>

theorem delivery_failure_keeps_loop:
  assumes "next_run (tick_now t) msg_config = Inr wake" and "tick_woken t"
  shows "timed_message_loop msg_config (t\<lparr>tick_raised := Some e\<rparr> # ts) =
           (fst (timed_message_loop msg_config ts),
            LogWillRun (cfg_id msg_config) # LogSendFailed e
              # snd (timed_message_loop msg_config ts)) \<and>
         fst (timed_message_loop msg_config (t\<lparr>tick_raised := Some e\<rparr> # ts)) =
           fst (timed_message_loop msg_config (t\<lparr>tick_raised := None\<rparr> # ts)) \<and>
         timed_message_loop msg_config [t\<lparr>tick_raised := Some e\<rparr>] =
           (None, [LogWillRun (cfg_id msg_config), LogSendFailed e]) \<and>
         (dt_date now' = dt_date wake \<and> time_key (dt_time wake) \<le> time_key (time_of now') \<and>
          dt_date now' < max_ordinal \<longrightarrow>
            next_run now' msg_config = Inr (combine (dt_date wake + 1) (dt_time wake)))"
proof -
  have 1: "timed_message_loop msg_config (t\<lparr>tick_raised := r\<rparr> # ts) =
      (fst (timed_message_loop msg_config ts),
       LogWillRun (cfg_id msg_config) # send_timed_message msg_config r
         @ snd (timed_message_loop msg_config ts))" for r ts
    using assms by (simp add: split_beta)
  have 2: "send_timed_message msg_config (Some e) = [LogSendFailed e]"
    by (simp add: send_timed_message_def)
  from next_run_Inr [OF assms(1)]
  have 3: "dt_date now' = dt_date wake \<and> time_key (dt_time wake) \<le> time_key (time_of now') \<and>
          dt_date now' < max_ordinal \<longrightarrow>
            next_run now' msg_config = Inr (combine (dt_date wake + 1) (dt_time wake))"
    by (auto simp add: next_run_def time_ge_def plus_one_day_def)
  from 1 2 3 show ?thesis by simp
qed

text \<open>
  The configuration for 09:00, first read at 08:00 on 2024-01-01. The delivery of that
  day fails; the next pass, 250 microseconds after 09:00, is reached and plans
  2024-01-02 at 09:00, and the loop ends only because it is cancelled there.
\<close>

theorem delivery_failure_keeps_loop_witness:
  "next_run
     \<lparr>dt_date = 738886,
      dt_time = \<lparr>hour = 8, minute = 0, second = 0, microsecond = 0, tzinfo = None\<rparr>\<rparr>
     example_config
   = Inr \<lparr>dt_date = 738886,
          dt_time = \<lparr>hour = 9, minute = 0, second = 0, microsecond = 0, tzinfo = None\<rparr>\<rparr> \<and>
   timed_message_loop example_config
     [\<lparr>tick_now = \<lparr>dt_date = 738886,
          dt_time = \<lparr>hour = 8, minute = 0, second = 0, microsecond = 0, tzinfo = None\<rparr>\<rparr>,
       tick_woken = True, tick_raised = Some RuntimeError\<rparr>,
      \<lparr>tick_now = \<lparr>dt_date = 738886,
          dt_time = \<lparr>hour = 9, minute = 0, second = 0, microsecond = 250, tzinfo = None\<rparr>\<rparr>,
       tick_woken = False, tick_raised = None\<rparr>]
   = (Some LoopCancelled,
      [LogWillRun ''msg_1_1704067200'', LogSendFailed RuntimeError,
       LogWillRun ''msg_1_1704067200'', LogTaskCancelled ''msg_1_1704067200'']) \<and>
   next_run
     \<lparr>dt_date = 738886,
      dt_time = \<lparr>hour = 9, minute = 0, second = 0, microsecond = 250, tzinfo = None\<rparr>\<rparr>
     example_config
   = Inr \<lparr>dt_date = 738887,
          dt_time = \<lparr>hour = 9, minute = 0, second = 0, microsecond = 0, tzinfo = None\<rparr>\<rparr>"
proof -
  let ?now = "\<lparr>dt_date = 738886,
      dt_time = \<lparr>hour = 8, minute = 0, second = 0, microsecond = 0, tzinfo = None\<rparr>\<rparr>"
  let ?later = "\<lparr>dt_date = 738886,
      dt_time = \<lparr>hour = 9, minute = 0, second = 0, microsecond = 250, tzinfo = None\<rparr>\<rparr>"
  let ?wake = "\<lparr>dt_date = 738886,
      dt_time = \<lparr>hour = 9, minute = 0, second = 0, microsecond = 0, tzinfo = None\<rparr>\<rparr>"
  let ?t = "\<lparr>tick_now = ?now, tick_woken = True, tick_raised = None\<rparr>"
  let ?t' = "\<lparr>tick_now = ?later, tick_woken = False, tick_raised = None\<rparr>"
  have c: "cfg_time example_config = ''09:00''" "cfg_id example_config = ''msg_1_1704067200''"
    by (simp_all add: example_config_def)
  have n: "next_run ?now example_config = Inr ?wake"
    by (simp add: next_run_def c parse_examples time_ge_def time_key_def time_of_def
          combine_def)
  have n': "next_run ?later example_config \<noteq> Inl err" for err
    by (simp add: next_run_def c parse_examples time_ge_def time_key_def time_of_def
          combine_def plus_one_day_def max_ordinal_def)
  have l: "timed_message_loop example_config [?t'] =
      (Some LoopCancelled,
       [LogWillRun ''msg_1_1704067200'', LogTaskCancelled ''msg_1_1704067200''])"
    using n' by (simp add: c split: sum.splits)
  have k: "time_key (dt_time ?wake) \<le> time_key (time_of ?later)"
    by (simp add: time_key_def time_of_def)
  from delivery_failure_keeps_loop [of ?t example_config ?wake RuntimeError "[?t']" ?later]
    n l k
  show ?thesis
    by (simp add: c combine_def max_ordinal_def)
qed

end
